theory Spec2Isabelle
  imports Complex_Main
begin

text \<open>
  A shallow embedding of the output-contract validators, the focus analyzer and the
  retry loop of the repository (\<^verbatim>\<open>deepseek/Chapter03/eg3.py\<close>, \<^verbatim>\<open>eg4.py\<close>, \<^verbatim>\<open>eg5.py\<close>,
  \<^verbatim>\<open>eg6.py\<close>).

  Text is modelled as \<^typ>\<open>string\<close> and read as ASCII: the character classes of Python
  (\<^verbatim>\<open>str.isspace\<close>, \<^verbatim>\<open>\s\<close>, \<^verbatim>\<open>\d\<close>, \<^verbatim>\<open>\w\<close>, \<^verbatim>\<open>str.lower\<close>) are written out for the
  code points below 128.
\<close>

section \<open>Python strings\<close>

datatype py_error = TypeError | AttributeError | IndexError | KeyError | ZeroDivisionError

text \<open>\<^verbatim>\<open>str.isspace\<close> and the regular-expression class \<^verbatim>\<open>\s\<close> agree on ASCII.\<close>

definition isspace :: "char \<Rightarrow> bool" where
  "isspace c = (c \<in> set [CHR 0x09, CHR 0x0A, CHR 0x0B, CHR 0x0C, CHR 0x0D,
                           CHR 0x1C, CHR 0x1D, CHR 0x1E, CHR 0x1F, CHR 0x20])"

definition isdigit :: "char \<Rightarrow> bool" where
  "isdigit c = (c \<in> set ''0123456789'')"

definition isword :: "char \<Rightarrow> bool" where
  "isword c =
     (c \<in> set ''abcdefghijklmnopqrstuvwxyzABCDEFGHIJKLMNOPQRSTUVWXYZ0123456789_'')"

definition lower_char :: "char \<Rightarrow> char" where
  "lower_char c =
     (case map_of (zip ''ABCDEFGHIJKLMNOPQRSTUVWXYZ'' ''abcdefghijklmnopqrstuvwxyz'') c of
        Some d \<Rightarrow> d
      | None \<Rightarrow> c)"

definition lower :: "string \<Rightarrow> string" where
  "lower s = map lower_char s"

definition strip :: "string \<Rightarrow> string" where
  "strip s = rev (dropWhile isspace (rev (dropWhile isspace s)))"

definition startswith :: "string \<Rightarrow> string \<Rightarrow> bool" where
  "startswith s p = (take (length p) s = p)"

definition endswith :: "string \<Rightarrow> string \<Rightarrow> bool" where
  "endswith s p = (length p \<le> length s \<and> drop (length s - length p) s = p)"

text \<open>\<^verbatim>\<open>k in t\<close> on strings: \<open>k\<close> occurs in \<open>t\<close> as a substring.\<close>

fun contains :: "string \<Rightarrow> string \<Rightarrow> bool" where
  "contains [] k = (k = [])"
| "contains (c # cs) k = (startswith (c # cs) k \<or> contains cs k)"

text \<open>
  \<^verbatim>\<open>t.count(k)\<close>: the number of non-overlapping occurrences, scanning from the left.
  After an occurrence the scan resumes behind it; \<open>n\<close> counts the characters still to
  skip.
\<close>

fun count_from :: "string \<Rightarrow> nat \<Rightarrow> string \<Rightarrow> nat" where
  "count_from k n [] = 0"
| "count_from k n (c # cs) =
     (if 0 < n then count_from k (n - 1) cs
      else if startswith (c # cs) k then 1 + count_from k (length k - 1) cs
      else count_from k 0 cs)"

definition count_sub :: "string \<Rightarrow> string \<Rightarrow> nat" where
  "count_sub t k = (if k = [] then length t + 1 else count_from k 0 t)"

text \<open>\<^verbatim>\<open>s.split()\<close>: the maximal runs of non-whitespace characters.\<close>

fun split_ws_aux :: "string \<Rightarrow> string \<Rightarrow> string list" where
  "split_ws_aux cur [] = (if cur = [] then [] else [cur])"
| "split_ws_aux cur (c # cs) =
     (if isspace c then (if cur = [] then split_ws_aux [] cs else cur # split_ws_aux [] cs)
      else split_ws_aux (cur @ [c]) cs)"

definition split_ws :: "string \<Rightarrow> string list" where
  "split_ws s = split_ws_aux [] s"

text \<open>\<^verbatim>\<open>s.split(sep)\<close> for a separator of one character.\<close>

fun split_char_aux :: "char \<Rightarrow> string \<Rightarrow> string \<Rightarrow> string list" where
  "split_char_aux sep cur [] = [cur]"
| "split_char_aux sep cur (c # cs) =
     (if c = sep then cur # split_char_aux sep [] cs
      else split_char_aux sep (cur @ [c]) cs)"

definition split_char :: "char \<Rightarrow> string \<Rightarrow> string list" where
  "split_char sep s = split_char_aux sep [] s"

text \<open>
  \<^verbatim>\<open>s.splitlines()\<close>: lines end at \<^verbatim>\<open>\n\<close>, \<^verbatim>\<open>\r\<close>, \<^verbatim>\<open>\r\n\<close>, \<^verbatim>\<open>\v\<close>, \<^verbatim>\<open>\f\<close>,
  \<^verbatim>\<open>\x1c\<close>, \<^verbatim>\<open>\x1d\<close>, \<^verbatim>\<open>\x1e\<close>; the breaks are dropped and a final break opens no
  further line. The flag records that the previous character was \<^verbatim>\<open>\r\<close>, whose
  break a directly following \<^verbatim>\<open>\n\<close> belongs to.
\<close>

definition is_linebreak :: "char \<Rightarrow> bool" where
  "is_linebreak c = (c \<in> set [CHR 0x0A, CHR 0x0B, CHR 0x0C, CHR 0x0D,
                                CHR 0x1C, CHR 0x1D, CHR 0x1E])"

fun splitlines_aux :: "bool \<Rightarrow> string \<Rightarrow> string \<Rightarrow> string list" where
  "splitlines_aux after_cr cur [] = (if cur = [] then [] else [cur])"
| "splitlines_aux after_cr cur (c # cs) =
     (if after_cr \<and> c = CHR 0x0A then splitlines_aux False cur cs
      else if is_linebreak c then cur # splitlines_aux (c = CHR 0x0D) [] cs
      else splitlines_aux False (cur @ [c]) cs)"

definition splitlines :: "string \<Rightarrow> string list" where
  "splitlines s = splitlines_aux False [] s"

text \<open>Indexing a list raises \<^verbatim>\<open>IndexError\<close> out of range.\<close>

definition py_index :: "'a list \<Rightarrow> nat \<Rightarrow> py_error + 'a" where
  "py_index xs i = (if i < length xs then Inr (xs ! i) else Inl IndexError)"

text \<open>Decimal digits to a number, and \<^verbatim>\<open>str(n)\<close> of a natural number.\<close>

definition digit_val :: "char \<Rightarrow> nat" where
  "digit_val c = (case map_of (zip ''0123456789'' [0, 1, 2, 3, 4, 5, 6, 7, 8, 9]) c of
                    Some d \<Rightarrow> d
                  | None \<Rightarrow> 0)"

definition nat_of_digits :: "string \<Rightarrow> nat" where
  "nat_of_digits ds = foldl (\<lambda>n c. 10 * n + digit_val c) 0 ds"

text \<open>
  \<^verbatim>\<open>int(s)\<close> on a string of decimal digits. Since Python 3.11 the conversion raises
  \<^verbatim>\<open>ValueError\<close> (here \<open>None\<close>) on more than 4300 digits.
\<close>

definition py_int :: "string \<Rightarrow> nat option" where
  "py_int ds = (if 4300 < length ds then None else Some (nat_of_digits ds))"

section \<open>Regular expressions with Python's backtracking order\<close>

text \<open>
  The patterns of the source are written as terms of \<open>re\<close>, with the flags of each call
  resolved in the term: \<open>Any\<close> is \<^verbatim>\<open>.\<close> under \<^verbatim>\<open>DOTALL\<close>, \<open>BolM\<close> and \<open>EolM\<close> are \<^verbatim>\<open>^\<close>
  and \<^verbatim>\<open>$\<close> under \<^verbatim>\<open>MULTILINE\<close>, \<open>StrI\<close> is a literal under \<^verbatim>\<open>IGNORECASE\<close>.

  \<open>rm r p s g\<close> matches \<open>r\<close> at a position of the subject: \<open>p\<close> is the character before
  the position (if any), \<open>s\<close> the text from the position on, \<open>g\<close> the groups captured so
  far. It returns every way of matching, as the state behind the match, in the order in
  which Python's backtracking matcher tries them: a greedy star tries one more
  iteration before it tries to stop, a lazy star the other way round, an alternative
  its left branch first. The first element of the list that lets the rest of a pattern
  match is Python's match. An iteration of a star must consume a character.
\<close>

type_synonym caps = "(nat \<times> string) list"

datatype re =
    Eps
  | Cls "char \<Rightarrow> bool"
  | Seq re re
  | Alt re re
  | Star re
  | Lazy re
  | Grp nat re
  | Bol
  | Eol
  | BolM
  | EolM
  | WordB
  | Behind "char \<Rightarrow> bool"

fun rm :: "re \<Rightarrow> char option \<Rightarrow> string \<Rightarrow> caps \<Rightarrow> (char option \<times> string \<times> caps) list" where
  "rm Eps p s g = [(p, s, g)]"
| "rm (Cls f) p s g =
     (case s of [] \<Rightarrow> [] | c # cs \<Rightarrow> if f c then [(Some c, cs, g)] else [])"
| "rm (Seq a b) p s g = concat (map (\<lambda>(p', s', g'). rm b p' s' g') (rm a p s g))"
| "rm (Alt a b) p s g = rm a p s g @ rm b p s g"
| "rm (Star a) p s g =
     concat (map (\<lambda>(p', s', g'). if length s' < length s then rm (Star a) p' s' g' else [])
                 (rm a p s g)) @ [(p, s, g)]"
| "rm (Lazy a) p s g =
     (p, s, g) #
     concat (map (\<lambda>(p', s', g'). if length s' < length s then rm (Lazy a) p' s' g' else [])
                 (rm a p s g))"
| "rm (Grp n a) p s g =
     map (\<lambda>(p', s', g'). (p', s', (n, take (length s - length s') s) # g')) (rm a p s g)"
| "rm Bol p s g = (if p = None then [(p, s, g)] else [])"
| "rm Eol p s g = (if s = [] \<or> s = [CHR 0x0A] then [(p, s, g)] else [])"
| "rm BolM p s g = (if p = None \<or> p = Some (CHR 0x0A) then [(p, s, g)] else [])"
| "rm EolM p s g = (if s = [] \<or> take 1 s = [CHR 0x0A] then [(p, s, g)] else [])"
| "rm WordB p s g =
     (if (case p of None \<Rightarrow> False | Some c \<Rightarrow> isword c) =
         (case s of [] \<Rightarrow> False | c # _ \<Rightarrow> isword c)
      then [] else [(p, s, g)])"
| "rm (Behind f) p s g =
     (if (case p of None \<Rightarrow> False | Some c \<Rightarrow> f c) then [(p, s, g)] else [])"

definition Chr :: "char \<Rightarrow> re" where
  "Chr c = Cls (\<lambda>x. x = c)"

definition ChrI :: "char \<Rightarrow> re" where
  "ChrI c = Cls (\<lambda>x. lower_char x = lower_char c)"

definition Any :: re where
  "Any = Cls (\<lambda>x. True)"

definition Plus :: "re \<Rightarrow> re" where
  "Plus a = Seq a (Star a)"

definition Opt :: "re \<Rightarrow> re" where
  "Opt a = Alt a Eps"

fun Seqs :: "re list \<Rightarrow> re" where
  "Seqs [] = Eps"
| "Seqs [a] = a"
| "Seqs (a # b # bs) = Seq a (Seqs (b # bs))"

definition Str :: "string \<Rightarrow> re" where
  "Str s = Seqs (map Chr s)"

definition StrI :: "string \<Rightarrow> re" where
  "StrI s = Seqs (map ChrI s)"

text \<open>The text of group \<open>n\<close> in the captures of a match (the latest capture first).\<close>

definition re_group :: "caps \<Rightarrow> nat \<Rightarrow> string" where
  "re_group g n = (case map_of g n of Some s \<Rightarrow> s | None \<Rightarrow> [])"

text \<open>\<^verbatim>\<open>re.fullmatch\<close>: the first way of matching at the start that ends at the end.\<close>

definition re_fullmatch :: "re \<Rightarrow> string \<Rightarrow> caps option" where
  "re_fullmatch r s =
     (case filter (\<lambda>(p, s', g). s' = []) (rm r None s []) of
        [] \<Rightarrow> None
      | (p, s', g) # _ \<Rightarrow> Some g)"

text \<open>\<^verbatim>\<open>re.match\<close>: the first way of matching at the start.\<close>

definition re_match :: "re \<Rightarrow> string \<Rightarrow> caps option" where
  "re_match r s = (case rm r None s [] of [] \<Rightarrow> None | (p, s', g) # _ \<Rightarrow> Some g)"

text \<open>\<^verbatim>\<open>re.search\<close>: the first match at the leftmost position that has one.\<close>

fun search_from :: "re \<Rightarrow> char option \<Rightarrow> string \<Rightarrow> caps option" where
  "search_from r p [] = (case rm r p [] [] of [] \<Rightarrow> None | (p', s', g) # _ \<Rightarrow> Some g)"
| "search_from r p (c # cs) =
     (case rm r p (c # cs) [] of
        [] \<Rightarrow> search_from r (Some c) cs
      | (p', s', g) # _ \<Rightarrow> Some g)"

definition re_search :: "re \<Rightarrow> string \<Rightarrow> caps option" where
  "re_search r s = search_from r None s"

text \<open>
  \<^verbatim>\<open>re.findall\<close>: the non-overlapping matches from left to right, each as its matched
  text and its groups. After a match of \<open>n\<close> characters the scan resumes behind it;
  \<open>k\<close> counts the characters still to skip.
\<close>

fun scan :: "re \<Rightarrow> nat \<Rightarrow> char option \<Rightarrow> string \<Rightarrow> (string \<times> caps) list" where
  "scan r k p [] =
     (if 0 < k then []
      else case rm r p [] [] of [] \<Rightarrow> [] | (p', s', g) # _ \<Rightarrow> [([], g)])"
| "scan r k p (c # cs) =
     (if 0 < k then scan r (k - 1) (Some c) cs
      else case rm r p (c # cs) [] of
             [] \<Rightarrow> scan r 0 (Some c) cs
           | (p', s', g) # _ \<Rightarrow>
               (take (length (c # cs) - length s') (c # cs), g) #
               scan r (length (c # cs) - length s' - 1) (Some c) cs)"

definition re_findall :: "re \<Rightarrow> string \<Rightarrow> (string \<times> caps) list" where
  "re_findall r s = scan r 0 None s"

text \<open>
  \<^verbatim>\<open>re.split\<close> for a pattern without groups that matches no empty text: the pieces
  between the matches. \<open>cur\<close> is the piece being read.
\<close>

fun split_scan :: "re \<Rightarrow> nat \<Rightarrow> char option \<Rightarrow> string \<Rightarrow> string \<Rightarrow> string list" where
  "split_scan r k p cur [] = [cur]"
| "split_scan r k p cur (c # cs) =
     (if 0 < k then split_scan r (k - 1) (Some c) cur cs
      else case rm r p (c # cs) [] of
             [] \<Rightarrow> split_scan r 0 (Some c) (cur @ [c]) cs
           | (p', s', g) # _ \<Rightarrow>
               (if length s' < length (c # cs)
                then cur # split_scan r (length (c # cs) - length s' - 1) (Some c) [] cs
                else split_scan r 0 (Some c) (cur @ [c]) cs))"

definition re_split :: "re \<Rightarrow> string \<Rightarrow> string list" where
  "re_split r s = split_scan r 0 None [] s"

section \<open>Python's \<^verbatim>\<open>decimal.Decimal\<close>\<close>

text \<open>
  A \<^verbatim>\<open>Decimal\<close> is a sign (\<open>True\<close> for negative), a coefficient and an exponent, or an
  infinity, or a quiet or a signalling NaN (whose sign and payload play no part here).
  The operations run in the default context: precision 28, \<^verbatim>\<open>Emax = 999999\<close>,
  \<^verbatim>\<open>Emin = -999999\<close>, \<^verbatim>\<open>InvalidOperation\<close> trapped. An operation that raises
  \<^verbatim>\<open>InvalidOperation\<close> returns \<open>None\<close>.
\<close>

datatype pydec = Fin bool nat int | Inf bool | QNaN | SNaN

fun ndigits :: "nat \<Rightarrow> nat" where
  "ndigits c = (if c < 10 then 1 else 1 + ndigits (c div 10))"

declare ndigits.simps [simp del]

definition parse_exponent :: "string \<Rightarrow> int option" where
  "parse_exponent s =
     (let neg = (take 1 s = ''-'');
          ds = (if take 1 s = ''-'' \<or> take 1 s = ''+'' then drop 1 s else s)
      in if ds = [] \<or> \<not> list_all isdigit ds then None
         else Some (if neg then - int (nat_of_digits ds) else int (nat_of_digits ds)))"

text \<open>
  The constructor converts exactly, within the limits of the 64-bit implementation:
  the exponent is at least \<open>-1999999999999999997\<close> and the adjusted exponent (the
  exponent, for a zero) at most \<open>999999999999999999\<close>.
\<close>

definition within_limits :: "nat \<Rightarrow> int \<Rightarrow> bool" where
  "within_limits c e =
     (- 1999999999999999997 \<le> e \<and>
      (if c = 0 then e else e + int (ndigits c) - 1) \<le> 999999999999999999)"

definition make_finite :: "bool \<Rightarrow> string \<Rightarrow> int \<Rightarrow> pydec option" where
  "make_finite neg ds e =
     (if within_limits (nat_of_digits ds) e then Some (Fin neg (nat_of_digits ds) e)
      else None)"

definition parse_finite :: "bool \<Rightarrow> string \<Rightarrow> pydec option" where
  "parse_finite neg body =
     (let ip = takeWhile isdigit body;
          r1 = dropWhile isdigit body;
          has_frac = (take 1 r1 = ''.'');
          fp = (if has_frac then takeWhile isdigit (drop 1 r1) else []);
          r2 = (if has_frac then dropWhile isdigit (drop 1 r1) else r1)
      in if ip = [] \<and> fp = [] then None
         else if r2 = [] then make_finite neg (ip @ fp) (- int (length fp))
         else if take 1 r2 = ''e'' then
           (case parse_exponent (drop 1 r2) of
              None \<Rightarrow> None
            | Some e \<Rightarrow> make_finite neg (ip @ fp) (e - int (length fp)))
         else None)"

definition parse_special :: "bool \<Rightarrow> string \<Rightarrow> pydec option" where
  "parse_special neg body =
     (if body = ''inf'' \<or> body = ''infinity'' then Some (Inf neg)
      else if startswith body ''nan'' \<and> list_all isdigit (drop 3 body) then Some QNaN
      else if startswith body ''snan'' \<and> list_all isdigit (drop 4 body) then Some SNaN
      else None)"

text \<open>
  \<^verbatim>\<open>Decimal(s)\<close>: surrounding whitespace and all underscores are removed, case is
  ignored; then an optional sign and either digits with an optional fraction and an
  optional exponent (at least one digit), or an infinity, or a NaN.
\<close>

definition Decimal :: "string \<Rightarrow> pydec option" where
  "Decimal s =
     (let t = lower (filter (\<lambda>c. c \<noteq> CHR ''_'') (strip s));
          neg = (take 1 t = ''-'');
          body = (if take 1 t = ''-'' \<or> take 1 t = ''+'' then drop 1 t else t)
      in case parse_finite neg body of
           Some d \<Rightarrow> Some d
         | None \<Rightarrow> parse_special neg body)"

text \<open>
  \<^verbatim>\<open>Decimal(10) ** (-dp)\<close> for \<open>dp \<ge> 0\<close> is \<open>1E-dp\<close>; below the smallest exponent of
  the context it underflows to \<open>0E-1000026\<close>. Only its exponent matters to
  \<^verbatim>\<open>quantize\<close>.
\<close>

definition quant_exp :: "nat \<Rightarrow> int" where
  "quant_exp dp = - int (min dp 1000026)"

text \<open>
  The coefficient at exponent \<open>q\<close> under \<^verbatim>\<open>ROUND_HALF_UP\<close>: zeros are appended when
  \<open>q \<le> e\<close>; otherwise the last \<open>q - e\<close> digits are dropped and the coefficient is
  incremented when the first dropped digit is 5 or more.
\<close>

definition rescale_half_up :: "nat \<Rightarrow> int \<Rightarrow> int \<Rightarrow> nat" where
  "rescale_half_up c e q =
     (if q \<le> e then c * 10 ^ nat (e - q)
      else c div 10 ^ nat (q - e) +
           (if 5 \<le> (c div 10 ^ (nat (q - e) - 1)) mod 10 then 1 else 0))"

text \<open>
  \<^verbatim>\<open>d.quantize(Decimal(10) ** (-dp), rounding=ROUND_HALF_UP)\<close>. It raises when the
  operand is an infinity, and when the result would need more than 28 digits.
\<close>

definition quantize_half_up :: "pydec \<Rightarrow> nat \<Rightarrow> pydec option" where
  "quantize_half_up d dp =
     (case d of
        SNaN \<Rightarrow> None
      | QNaN \<Rightarrow> Some QNaN
      | Inf s \<Rightarrow> None
      | Fin s c e \<Rightarrow>
          (let q = quant_exp dp in
           if c = 0 then Some (Fin s 0 q)
           else if 999999 < e + int (ndigits c) - 1 then None
           else if 28 < e + int (ndigits c) - 1 - q + 1 then None
           else if 28 < ndigits (rescale_half_up c e q) then None
           else Some (Fin s (rescale_half_up c e q) q)))"

text \<open>Numerical equality of finite decimals: the coefficients at the smaller exponent.\<close>

definition dec_eq :: "bool \<Rightarrow> nat \<Rightarrow> int \<Rightarrow> bool \<Rightarrow> nat \<Rightarrow> int \<Rightarrow> bool" where
  "dec_eq s1 c1 e1 s2 c2 e2 =
     (c1 * 10 ^ nat (e1 - min e1 e2) = c2 * 10 ^ nat (e2 - min e1 e2) \<and>
      (s1 = s2 \<or> c1 = 0))"

text \<open>
  \<^verbatim>\<open>a != b\<close>: a signalling NaN raises, a quiet NaN differs from everything.
\<close>

fun py_ne :: "pydec \<Rightarrow> pydec \<Rightarrow> bool option" where
  "py_ne SNaN b = None"
| "py_ne a SNaN = None"
| "py_ne QNaN b = Some True"
| "py_ne a QNaN = Some True"
| "py_ne (Inf s1) (Inf s2) = Some (s1 \<noteq> s2)"
| "py_ne (Inf s1) (Fin s2 c2 e2) = Some True"
| "py_ne (Fin s1 c1 e1) (Inf s2) = Some True"
| "py_ne (Fin s1 c1 e1) (Fin s2 c2 e2) = Some (\<not> dec_eq s1 c1 e1 s2 c2 e2)"



section \<open>Numeric-tag validator (deepseek/Chapter03/eg5.py)\<close>

text \<open>
  The failure reasons of \<^verbatim>\<open>validate_math_answer\<close>, one constructor for each message of
  the source, with the values the message is formatted from:
  \<^item> \<open>NotOneAnswerTag\<close>: "Response is not exactly one <answer>...</answer> tag with no
    extra text."
  \<^item> \<open>MissingUnits\<close>: "Missing units="..." attribute."
  \<^item> \<open>WrongUnits got expected\<close>: "Wrong units: got "...", expected "..."."
  \<^item> \<open>MissingRounding\<close>: "Missing rounding="Xdp" attribute."
  \<^item> \<open>WrongRoundingDp got_dp dp\<close>: "Wrong rounding dp: got ..., expected ...."
  \<^item> \<open>RoundingNotInteger\<close>: "rounding attribute must be an integer followed by "dp"."
  \<^item> \<open>NotDecimalNumber\<close>: "Answer text is not a valid decimal number."
  \<^item> \<open>WrongDecimalPlaces dp num_decimals\<close>: "Answer must have exactly ... decimal
    places, got ...."
  \<^item> \<open>NumericMismatch got expected_dec dp\<close>: "Numeric mismatch: got ..., expected ... at
    ...dp."
  \<^item> \<open>CouldNotParse\<close>: "Could not parse numeric value for comparison."
\<close>

datatype reason =
    NotOneAnswerTag
  | MissingUnits
  | WrongUnits string string
  | MissingRounding
  | WrongRoundingDp nat nat
  | RoundingNotInteger
  | NotDecimalNumber
  | WrongDecimalPlaces nat nat
  | NumericMismatch pydec pydec nat
  | CouldNotParse

text \<open>\<^verbatim>\<open>\s*<answer\b([^>]*)>(.*?)</answer>\s*\<close> with \<^verbatim>\<open>DOTALL\<close>\<close>

definition answer_re :: re where
  "answer_re =
     Seqs [Star (Cls isspace), Str ''<answer'', WordB,
           Grp 1 (Star (Cls (\<lambda>c. c \<noteq> CHR ''>''))), Chr CHR ''>'',
           Grp 2 (Lazy Any), Str ''</answer>'', Star (Cls isspace)]"

text \<open>\<^verbatim>\<open>units\s*=\s*"([^"]+)"\<close>\<close>

definition units_re :: re where
  "units_re =
     Seqs [Str ''units'', Star (Cls isspace), Chr CHR ''='', Star (Cls isspace),
           Chr CHR 0x22, Grp 1 (Plus (Cls (\<lambda>c. c \<noteq> CHR 0x22))), Chr CHR 0x22]"

text \<open>\<^verbatim>\<open>rounding\s*=\s*"(\d+)dp"\<close>\<close>

definition rounding_re :: re where
  "rounding_re =
     Seqs [Str ''rounding'', Star (Cls isspace), Chr CHR ''='', Star (Cls isspace),
           Chr CHR 0x22, Grp 1 (Plus (Cls isdigit)), Str ''dp'', Chr CHR 0x22]"

text \<open>\<^verbatim>\<open>-?\d+\.\d+\<close> and \<^verbatim>\<open>-?\d+\<close>\<close>

definition decimal_frac_re :: re where
  "decimal_frac_re =
     Seqs [Opt (Chr CHR ''-''), Plus (Cls isdigit), Chr CHR ''.'', Plus (Cls isdigit)]"

definition decimal_int_re :: re where
  "decimal_int_re = Seqs [Opt (Chr CHR ''-''), Plus (Cls isdigit)]"

definition units_check :: "string \<Rightarrow> string \<Rightarrow> reason list" where
  "units_check attrs expected_units =
     (case re_search units_re attrs of
        None \<Rightarrow> [MissingUnits]
      | Some units_m \<Rightarrow>
          if re_group units_m 1 \<noteq> expected_units
          then [WrongUnits (re_group units_m 1) expected_units]
          else [])"

definition rounding_check :: "string \<Rightarrow> nat \<Rightarrow> reason list" where
  "rounding_check attrs dp =
     (case re_search rounding_re attrs of
        None \<Rightarrow> [MissingRounding]
      | Some rounding_m \<Rightarrow>
          (case py_int (re_group rounding_m 1) of
             None \<Rightarrow> [RoundingNotInteger]
           | Some got_dp \<Rightarrow> if got_dp \<noteq> dp then [WrongRoundingDp got_dp dp] else []))"

text \<open>
  The number of decimals of the answer text, with the reason added when the text is
  no decimal literal. \<^verbatim>\<open>value_text.split(".")[1]\<close> could raise \<^verbatim>\<open>IndexError\<close>.
\<close>

definition count_decimals :: "string \<Rightarrow> py_error + nat \<times> reason list" where
  "count_decimals value_text =
     (if re_fullmatch decimal_frac_re value_text \<noteq> None then
        (case py_index (split_char (CHR ''.'') value_text) 1 of
           Inl e \<Rightarrow> Inl e
         | Inr decimals \<Rightarrow> Inr (length decimals, []))
      else if re_fullmatch decimal_int_re value_text \<noteq> None then Inr (0, [])
      else Inr (0, [NotDecimalNumber]))"

definition places_check :: "nat \<Rightarrow> nat \<Rightarrow> reason list" where
  "places_check num_decimals dp =
     (if num_decimals \<noteq> dp then [WrongDecimalPlaces dp num_decimals] else [])"

text \<open>
  The comparison inside \<^verbatim>\<open>try\<close>: every \<^verbatim>\<open>InvalidOperation\<close> raised by the
  constructor, by \<^verbatim>\<open>quantize\<close> or by the comparison is caught and gives
  \<open>CouldNotParse\<close>. The expected value enters as \<open>expected\<close>, the decimal
  \<^verbatim>\<open>Decimal(str(expected_value))\<close> of the float argument: the conversion of the binary
  float to its shortest decimal text is outside this model.
\<close>

definition numeric_check :: "string \<Rightarrow> pydec \<Rightarrow> nat \<Rightarrow> reason list" where
  "numeric_check value_text expected dp =
     (case Decimal value_text of
        None \<Rightarrow> [CouldNotParse]
      | Some got \<Rightarrow>
          (case quantize_half_up expected dp of
             None \<Rightarrow> [CouldNotParse]
           | Some expected_dec \<Rightarrow>
               (case py_ne got expected_dec of
                  None \<Rightarrow> [CouldNotParse]
                | Some True \<Rightarrow> [NumericMismatch got expected_dec dp]
                | Some False \<Rightarrow> [])))"

definition validate_math_answer ::
  "string \<Rightarrow> pydec \<Rightarrow> string \<Rightarrow> nat \<Rightarrow> py_error + bool \<times> reason list" where
  "validate_math_answer response expected expected_units dp =
     (case re_fullmatch answer_re response of
        None \<Rightarrow> Inr (False, [NotOneAnswerTag])
      | Some m \<Rightarrow>
          (let attrs = re_group m 1;
               value_text = strip (re_group m 2)
           in case count_decimals value_text of
                Inl e \<Rightarrow> Inl e
              | Inr (num_decimals, not_decimal) \<Rightarrow>
                  (let reasons =
                         units_check attrs expected_units @
                         rounding_check attrs dp @
                         not_decimal @
                         places_check num_decimals dp @
                         numeric_check value_text expected dp
                   in Inr (reasons = [], reasons))))"



section \<open>Code-block validator (deepseek/Chapter03/eg5.py)\<close>

text \<open>
  The failure reasons of \<^verbatim>\<open>validate_code_block_normalize\<close>:
  \<^item> \<open>NotOnlyFence\<close>: "Response must contain exactly one fenced code block and nothing
    else."
  \<^item> \<open>NotOnePythonBlock\<close>: "There must be exactly one ```python ...``` block."
  \<^item> \<open>CodeBlockEmpty\<close>: "Code block is empty."
  \<^item> \<open>BadHeader\<close>: "First line must be "# Python 3.12, stdlib only"."
  \<^item> \<open>MissingSignature\<close>: "Missing exact function signature: def normalize(v:
    list[float]) -> list[float]:"
  \<^item> \<open>MissingMainGuard\<close>: "Missing main guard: if __name__ == "__main__":"
  \<^item> \<open>NonStdlibImport lib\<close>: "Found non-stdlib import: "...""
\<close>

datatype code_reason =
    NotOnlyFence
  | NotOnePythonBlock
  | CodeBlockEmpty
  | BadHeader
  | MissingSignature
  | MissingMainGuard
  | NonStdlibImport string

text \<open>\<^verbatim>\<open>```python\s*\n(.*?)\n```\<close> with \<^verbatim>\<open>DOTALL | IGNORECASE\<close>\<close>

definition block_re :: re where
  "block_re =
     Seqs [StrI ''```python'', Star (Cls isspace), Chr (CHR 0x0A),
           Grp 1 (Lazy Any), Chr (CHR 0x0A), StrI ''```'']"

text \<open>\<^verbatim>\<open>^\s*#\s*Python\s*3\.12,\s*stdlib\s*only\s*$\<close>\<close>

definition header_re :: re where
  "header_re =
     Seqs [Bol, Star (Cls isspace), Chr CHR ''#'', Star (Cls isspace), Str ''Python'',
           Star (Cls isspace), Str ''3.12,'', Star (Cls isspace), Str ''stdlib'',
           Star (Cls isspace), Str ''only'', Star (Cls isspace), Eol]"

text \<open>
  \<^verbatim>\<open>^\s*def\s+normalize\s*\(\s*v\s*:\s*list\[float\]\s*\)\s*->\s*list\[float\]\s*:\s*$\<close>
  with \<^verbatim>\<open>MULTILINE\<close>
\<close>

definition signature_re :: re where
  "signature_re =
     Seqs [BolM, Star (Cls isspace), Str ''def'', Plus (Cls isspace), Str ''normalize'',
           Star (Cls isspace), Chr CHR ''('', Star (Cls isspace), Chr CHR ''v'',
           Star (Cls isspace), Chr CHR '':'', Star (Cls isspace), Str ''list[float]'',
           Star (Cls isspace), Chr CHR '')'', Star (Cls isspace), Str ''->'',
           Star (Cls isspace), Str ''list[float]'', Star (Cls isspace), Chr CHR '':'',
           Star (Cls isspace), EolM]"

text \<open>\<^verbatim>\<open>if\s+__name__\s*==\s*[\'"]__main__[\'"]\s*:\<close>\<close>

definition is_quote :: "char \<Rightarrow> bool" where
  "is_quote c = (c = CHR 0x27 \<or> c = CHR 0x22)"

definition guard_re :: re where
  "guard_re =
     Seqs [Str ''if'', Plus (Cls isspace), Str ''__name__'', Star (Cls isspace), Str ''=='',
           Star (Cls isspace), Cls is_quote, Str ''__main__'', Cls is_quote,
           Star (Cls isspace), Chr CHR '':'']"

text \<open>
  \<^verbatim>\<open>^\s*(?:from\s+([a-zA-Z0-9_\.]+)\s+import|import\s+([a-zA-Z0-9_\.]+))\<close> with
  \<^verbatim>\<open>MULTILINE\<close>
\<close>

definition is_module_char :: "char \<Rightarrow> bool" where
  "is_module_char c = (isword c \<or> c = CHR ''.'')"

definition import_re :: re where
  "import_re =
     Seqs [BolM, Star (Cls isspace),
           Alt (Seqs [Str ''from'', Plus (Cls isspace), Grp 1 (Plus (Cls is_module_char)),
                      Plus (Cls isspace), Str ''import''])
               (Seqs [Str ''import'', Plus (Cls isspace),
                      Grp 2 (Plus (Cls is_module_char))])]"

definition banned_libs :: "string list" where
  "banned_libs = [''numpy'', ''pandas'', ''requests'', ''torch'', ''tensorflow'',
                  ''sklearn'', ''httpx'', ''aiohttp'']"

definition header_check :: "string \<Rightarrow> code_reason list" where
  "header_check first_line = (if re_match header_re first_line = None then [BadHeader] else [])"

definition signature_check :: "string \<Rightarrow> code_reason list" where
  "signature_check code =
     (if re_search signature_re code = None then [MissingSignature] else [])"

definition guard_check :: "string \<Rightarrow> code_reason list" where
  "guard_check code = (if re_search guard_re code = None then [MissingMainGuard] else [])"

text \<open>
  One entry for each import statement found: \<^verbatim>\<open>(lib_a or lib_b).split(".")[0]\<close>, and
  a reason when that module is banned.
\<close>

definition import_lib :: "string \<times> caps \<Rightarrow> string" where
  "import_lib m =
     (let lib_a = re_group (snd m) 1;
          lib_b = re_group (snd m) 2
      in case split_char (CHR ''.'') (if lib_a \<noteq> [] then lib_a else lib_b) of
           [] \<Rightarrow> []
         | lib # _ \<Rightarrow> lib)"

definition import_check :: "string \<Rightarrow> code_reason list" where
  "import_check code =
     map NonStdlibImport
       (filter (\<lambda>lib. lib \<in> set banned_libs) (map import_lib (re_findall import_re code)))"

definition validate_code_block_normalize :: "string \<Rightarrow> bool \<times> code_reason list" where
  "validate_code_block_normalize response =
     (if \<not> (startswith (strip response) ''```'' \<and> endswith (strip response) ''```'')
      then (False, [NotOnlyFence])
      else
        (case map (\<lambda>m. re_group (snd m) 1) (re_findall block_re response) of
           [code] \<Rightarrow>
             (case splitlines code of
                [] \<Rightarrow> (False, [CodeBlockEmpty])
              | first_line # _ \<Rightarrow>
                  (let reasons = header_check first_line @ signature_check code @
                                 guard_check code @ import_check code
                   in (reasons = [], reasons)))
         | _ \<Rightarrow> (False, [NotOnePythonBlock])))"

section \<open>Focus analyzer (deepseek/Chapter03/eg4.py)\<close>

definition SQL_KEYS :: "string list" where
  "SQL_KEYS = [''sql injection'', ''sqli'', ''parameterized'', ''prepared statement'',
               ''prepared statements'', ''bind parameter'', ''bind parameters'', ''escape'',
               ''sanitize'']"

definition AUTH_KEYS :: "string list" where
  "AUTH_KEYS = [''authentication bypass'', ''auth bypass'', ''bypass authentication'',
                ''logic flaw'', ''privilege escalation'', ''session fixation'', ''remember'',
                ''is_admin'']"

definition OFF_TOPIC :: "string list" where
  "OFF_TOPIC = [''xss'', ''csrf'', ''ssrf'', ''rce'', ''xxe'', ''deserialization'',
                ''clickjacking'']"

text \<open>\<^verbatim>\<open>\w+\<close>, and \<^verbatim>\<open>(?<=[.!?])\s+\<close>\<close>

definition word_re :: re where
  "word_re = Plus (Cls isword)"

definition sentence_end_re :: re where
  "sentence_end_re = Seq (Behind (\<lambda>c. c \<in> set ''.!?'')) (Plus (Cls isspace))"

text \<open>\<^verbatim>\<open>_count_words\<close>, \<^verbatim>\<open>_sentences\<close>, \<^verbatim>\<open>_contains_any\<close> and \<^verbatim>\<open>_count_any\<close> of the source.\<close>

definition count_words_re :: "string \<Rightarrow> nat" where
  "count_words_re text = length (re_findall word_re text)"

definition split_sentences :: "string \<Rightarrow> string list" where
  "split_sentences text = filter (\<lambda>p. p \<noteq> []) (re_split sentence_end_re (strip text))"

definition contains_any :: "string \<Rightarrow> string list \<Rightarrow> bool" where
  "contains_any text keys = list_ex (\<lambda>k. contains (lower text) k) keys"

definition count_any :: "string \<Rightarrow> string list \<Rightarrow> nat" where
  "count_any text keys = sum_list (map (\<lambda>k. count_sub (lower text) k) keys)"

text \<open>
  The metrics snapshot. \<open>snr\<close> is the exact quotient of the two counts: the source
  computes it in binary floating point and rounds it to three places with
  \<^verbatim>\<open>round(_, 3)\<close>, which this model does not follow (a quotient of 0 stays 0).
\<close>

record focus_metrics =
  mentions_sql :: bool
  mentions_auth_bypass :: bool
  target_hits :: nat
  offtopic_hits :: nat
  focus_score :: int
  snr :: rat
  length_words :: nat
  sentences :: nat

text \<open>\<^verbatim>\<open>a / b\<close> on integers raises \<^verbatim>\<open>ZeroDivisionError\<close> for a zero divisor.\<close>

definition py_truediv :: "nat \<Rightarrow> nat \<Rightarrow> py_error + rat" where
  "py_truediv a b = (if b = 0 then Inl ZeroDivisionError else Inr (of_nat a / of_nat b))"

definition analyze_focus :: "string \<Rightarrow> py_error + focus_metrics" where
  "analyze_focus text =
     (let words = count_words_re text;
          sent = split_sentences text;
          sent_total = max (length sent) 1;
          sql_hits = count_any text SQL_KEYS;
          auth_hits = count_any text AUTH_KEYS;
          offtopic = count_any text OFF_TOPIC;
          target = sql_hits + auth_hits;
          target_sentences =
            length (filter (\<lambda>s. contains_any s SQL_KEYS \<or> contains_any s AUTH_KEYS) sent)
      in case py_truediv target_sentences sent_total of
           Inl e \<Rightarrow> Inl e
         | Inr q \<Rightarrow>
             Inr \<lparr>mentions_sql = (0 < sql_hits),
                  mentions_auth_bypass = (0 < auth_hits),
                  target_hits = target,
                  offtopic_hits = offtopic,
                  focus_score = int target - int offtopic,
                  snr = q,
                  length_words = words,
                  sentences = sent_total\<rparr>)"

section \<open>Schema validator (deepseek/Chapter03/eg3.py)\<close>

text \<open>
  The value \<^verbatim>\<open>json.loads\<close> returns: \<^verbatim>\<open>None\<close>, a bool, an int, a float, a string, a list or
  a dict. A dict is the list of its items, with distinct keys. The parser itself is
  Python's; \<^verbatim>\<open>validate_response\<close> is modelled from the parser's result on, which is
  \<open>None\<close> when \<^verbatim>\<open>json.loads\<close> raises \<^verbatim>\<open>JSONDecodeError\<close>.
\<close>

datatype json =
    JNull
  | JBool bool
  | JInt int
  | JFloat rat
  | JStr string
  | JArr "json list"
  | JObj "(string \<times> json) list"

text \<open>
  \<^verbatim>\<open>key in c\<close> for a string key: a key of a dict, an element of a list, a substring of
  a string; the other values are not iterable.
\<close>

definition py_in :: "string \<Rightarrow> json \<Rightarrow> py_error + bool" where
  "py_in key c =
     (case c of
        JObj kv \<Rightarrow> Inr (key \<in> set (map fst kv))
      | JArr xs \<Rightarrow> Inr (JStr key \<in> set xs)
      | JStr s \<Rightarrow> Inr (contains s key)
      | _ \<Rightarrow> Inl TypeError)"

text \<open>\<^verbatim>\<open>d.get(key, default)\<close>: only a dict has the method.\<close>

definition py_get :: "json \<Rightarrow> string \<Rightarrow> json \<Rightarrow> py_error + json" where
  "py_get d key dflt =
     (case d of
        JObj kv \<Rightarrow> Inr (case map_of kv key of Some v \<Rightarrow> v | None \<Rightarrow> dflt)
      | _ \<Rightarrow> Inl AttributeError)"

text \<open>\<^verbatim>\<open>c[key]\<close> for a string key: lists and strings take integer indices only.\<close>

definition py_getitem :: "json \<Rightarrow> string \<Rightarrow> py_error + json" where
  "py_getitem c key =
     (case c of
        JObj kv \<Rightarrow> (case map_of kv key of Some v \<Rightarrow> Inr v | None \<Rightarrow> Inl KeyError)
      | _ \<Rightarrow> Inl TypeError)"

definition AllowedVerdicts :: "string list" where
  "AllowedVerdicts = [''permit'', ''forbid'', ''conditional'']"

text \<open>
  \<^verbatim>\<open>v in AllowedVerdicts\<close>: membership in a set hashes \<open>v\<close>, and lists and dicts are
  unhashable.
\<close>

definition in_allowed_verdicts :: "json \<Rightarrow> py_error + bool" where
  "in_allowed_verdicts v =
     (case v of
        JArr xs \<Rightarrow> Inl TypeError
      | JObj kv \<Rightarrow> Inl TypeError
      | _ \<Rightarrow> Inr (v \<in> set (map JStr AllowedVerdicts)))"

definition is_str :: "json \<Rightarrow> bool" where
  "is_str v = (case v of JStr s \<Rightarrow> True | _ \<Rightarrow> False)"

definition is_list :: "json \<Rightarrow> bool" where
  "is_list v = (case v of JArr xs \<Rightarrow> True | _ \<Rightarrow> False)"

text \<open>\<^verbatim>\<open>isinstance(v, (int, float))\<close>: a bool is an int.\<close>

definition is_number :: "json \<Rightarrow> bool" where
  "is_number v = (case v of JInt n \<Rightarrow> True | JFloat r \<Rightarrow> True | JBool b \<Rightarrow> True | _ \<Rightarrow> False)"

definition truthy :: "json \<Rightarrow> bool" where
  "truthy v =
     (case v of
        JNull \<Rightarrow> False
      | JBool b \<Rightarrow> b
      | JInt n \<Rightarrow> n \<noteq> 0
      | JFloat r \<Rightarrow> r \<noteq> 0
      | JStr s \<Rightarrow> s \<noteq> []
      | JArr xs \<Rightarrow> xs \<noteq> []
      | JObj kv \<Rightarrow> kv \<noteq> [])"

definition count_words :: "string \<Rightarrow> nat" where
  "count_words text = length (split_ws (strip text))"

definition required_keys :: "string list" where
  "required_keys = [''per_lens'', ''deployment_recommendation'', ''oversight_plan'',
                    ''counterargument'', ''residual_risks'', ''confidence'']"

definition lens_names :: "string list" where
  "lens_names = [''utilitarianism'', ''deontology'', ''virtue_ethics'', ''care_ethics'']"

text \<open>The loop over the required keys; \<open>errors\<close> is the list built so far.\<close>

fun check_keys :: "json \<Rightarrow> string list \<Rightarrow> string list \<Rightarrow> py_error + string list" where
  "check_keys data [] errors = Inr errors"
| "check_keys data (key # keys) errors =
     (case py_in key data of
        Inl e \<Rightarrow> Inl e
      | Inr present \<Rightarrow>
          check_keys data keys
            (if present then errors else errors @ [''Missing key: '' @ key]))"

text \<open>The body of the loop over the lenses.\<close>

definition check_lens :: "json \<Rightarrow> string \<Rightarrow> string list \<Rightarrow> py_error + string list" where
  "check_lens per_lens k errors =
     (case py_in k per_lens of
        Inl e \<Rightarrow> Inl e
      | Inr present \<Rightarrow>
          if \<not> present then Inr (errors @ [''Missing lens: '' @ k])
          else
            (case py_getitem per_lens k of
               Inl e \<Rightarrow> Inl e
             | Inr lens \<Rightarrow>
                 (case py_get lens ''verdict'' JNull of
                    Inl e \<Rightarrow> Inl e
                  | Inr verdict \<Rightarrow>
                      (case in_allowed_verdicts verdict of
                         Inl e \<Rightarrow> Inl e
                       | Inr allowed \<Rightarrow>
                           (case py_get lens ''Rationale'' JNull of
                              Inl e \<Rightarrow> Inl e
                            | Inr alt \<Rightarrow>
                                (case py_get lens ''rationale'' alt of
                                   Inl e \<Rightarrow> Inl e
                                 | Inr rationale \<Rightarrow>
                                     Inr ((if allowed then errors
                                           else errors @ [k @ ''.verdict invalid or missing'']) @
                                          (case rationale of
                                             JStr r \<Rightarrow>
                                               if 60 < count_words r
                                               then [k @ ''.rationale > 60 words'']
                                               else []
                                           | _ \<Rightarrow>
                                               [k @ ''.rationale missing or not string'']))))))))"

fun check_lenses :: "json \<Rightarrow> string list \<Rightarrow> string list \<Rightarrow> py_error + string list" where
  "check_lenses per_lens [] errors = Inr errors"
| "check_lenses per_lens (k # ks) errors =
     (case check_lens per_lens k errors of
        Inl e \<Rightarrow> Inl e
      | Inr errors' \<Rightarrow> check_lenses per_lens ks errors')"

definition check_deployment :: "json \<Rightarrow> string list \<Rightarrow> py_error + string list" where
  "check_deployment dep errors =
     (if \<not> truthy dep then Inr errors
      else
        (case py_get dep ''verdict'' JNull of
           Inl e \<Rightarrow> Inl e
         | Inr verdict \<Rightarrow>
             (case in_allowed_verdicts verdict of
                Inl e \<Rightarrow> Inl e
              | Inr allowed \<Rightarrow>
                  (case py_get dep ''conditions'' JNull of
                     Inl e \<Rightarrow> Inl e
                   | Inr conditions \<Rightarrow>
                       Inr ((if allowed then errors
                             else errors @
                                  [''deployment_recommendation.verdict invalid or missing'']) @
                            (if \<not> is_list conditions \<or> \<not> truthy conditions
                             then [''deployment_recommendation.conditions missing or not list'']
                             else []))))))"

definition check_counterargument :: "json \<Rightarrow> string list \<Rightarrow> py_error + string list" where
  "check_counterargument ca errors =
     (case py_get ca ''claim'' JNull of
        Inl e \<Rightarrow> Inl e
      | Inr claim \<Rightarrow>
          (case py_get ca ''test'' JNull of
             Inl e \<Rightarrow> Inl e
           | Inr test \<Rightarrow>
               Inr (errors @
                    (case (claim, test) of
                       (JStr c, JStr t) \<Rightarrow>
                         (if 60 < count_words c then [''counterargument.claim > 60 words'']
                          else []) @
                         (if 60 < count_words t then [''counterargument.test > 60 words'']
                          else [])
                     | _ \<Rightarrow> [''counterargument.claim/test missing or not string'']))))"

text \<open>
  The checks after a successful parse, in the order of the source. Every \<^verbatim>\<open>data.get\<close>
  raises when \<open>data\<close> is no dict.
\<close>

definition validate_data :: "json \<Rightarrow> py_error + bool \<times> string list \<times> json option" where
  "validate_data data =
     (case check_keys data required_keys [] of
        Inl e \<Rightarrow> Inl e
      | Inr errors1 \<Rightarrow>
     (case py_get data ''per_lens'' (JObj []) of
        Inl e \<Rightarrow> Inl e
      | Inr per_lens \<Rightarrow>
     (case check_lenses per_lens lens_names errors1 of
        Inl e \<Rightarrow> Inl e
      | Inr errors2 \<Rightarrow>
     (case py_get data ''deployment_recommendation'' (JObj []) of
        Inl e \<Rightarrow> Inl e
      | Inr dep \<Rightarrow>
     (case check_deployment dep errors2 of
        Inl e \<Rightarrow> Inl e
      | Inr errors3 \<Rightarrow>
     (case py_get data ''oversight_plan'' JNull of
        Inl e \<Rightarrow> Inl e
      | Inr oversight_plan \<Rightarrow>
     (case py_get data ''counterargument'' (JObj []) of
        Inl e \<Rightarrow> Inl e
      | Inr ca \<Rightarrow>
     (case check_counterargument ca
             (errors3 @ (if \<not> is_list oversight_plan then [''oversight_plan not a list'']
                         else [])) of
        Inl e \<Rightarrow> Inl e
      | Inr errors4 \<Rightarrow>
     (case py_get data ''residual_risks'' JNull of
        Inl e \<Rightarrow> Inl e
      | Inr residual_risks \<Rightarrow>
     (case py_get data ''confidence'' JNull of
        Inl e \<Rightarrow> Inl e
      | Inr confidence \<Rightarrow>
          (let errors =
                 errors4 @
                 (if \<not> is_list residual_risks then [''residual_risks not a list''] else []) @
                 (if \<not> is_number confidence then [''confidence not a number''] else [])
           in Inr (errors = [], errors, Some data))))))))))))"

definition validate_response ::
  "json option \<Rightarrow> py_error + bool \<times> string list \<times> json option" where
  "validate_response parsed =
     (case parsed of
        None \<Rightarrow> Inr (False, [''Invalid JSON''], None)
      | Some data \<Rightarrow> validate_data data)"

section \<open>Retry-repair loop (deepseek/Chapter03/eg6.py)\<close>

text \<open>
  \<^verbatim>\<open>extract_with_retry\<close> calls the structured-output client up to \<^verbatim>\<open>max_retries\<close>
  times. The client is the collaborator: a call either returns a parsed value or raises.
  It is modelled as a function of the number of calls made before and of the prompt
  sent, so that it may answer differently on each attempt. An exception is a value of
  type \<open>'e\<close>, and \<open>str_of\<close> is Python's \<^verbatim>\<open>str(e)\<close>.

  The outcome of the call is one of: a value returned from inside the loop, the
  exception re-raised by the bare \<^verbatim>\<open>raise\<close>, or the implicit \<^verbatim>\<open>None\<close> of a function body
  that ends without a \<^verbatim>\<open>return\<close>. The list of prompts sent, in order, is returned beside
  the outcome: it is the trace of the collaborator calls.
\<close>

datatype ('e, 'v) outcome = Returned 'v | Raised 'e | ReturnedNone

definition repair_prompt :: "string \<Rightarrow> string \<Rightarrow> string" where
  "repair_prompt msg prompt =
     ''The previous JSON was invalid:'' @ [CHR 0x0A] @ msg @ [CHR 0x0A, CHR 0x0A] @
     ''Please fix and return valid JSON for: '' @ prompt"

function retry_loop ::
  "('e \<Rightarrow> string) \<Rightarrow> (nat \<Rightarrow> string \<Rightarrow> 'e + 'v) \<Rightarrow> int \<Rightarrow> int \<Rightarrow> string \<Rightarrow> string list
     \<Rightarrow> string list \<times> ('e, 'v) outcome" where
  "retry_loop str_of create max_retries attempt prompt sent =
     (if attempt < max_retries then
        (case create (length sent) prompt of
           Inr v \<Rightarrow> (sent @ [prompt], Returned v)
         | Inl e \<Rightarrow>
             (if attempt < max_retries - 1
              then retry_loop str_of create max_retries (attempt + 1)
                     (repair_prompt (str_of e) prompt) (sent @ [prompt])
              else (sent @ [prompt], Raised e)))
      else (sent, ReturnedNone))"
  by pat_completeness auto
termination
  by (relation "measure (\<lambda>(s, c, m, a, p, l). nat (m - a))") auto

definition extract_with_retry ::
  "('e \<Rightarrow> string) \<Rightarrow> (nat \<Rightarrow> string \<Rightarrow> 'e + 'v) \<Rightarrow> string \<Rightarrow> int
     \<Rightarrow> string list \<times> ('e, 'v) outcome" where
  "extract_with_retry str_of create prompt max_retries =
     retry_loop str_of create max_retries 0 prompt []"


section \<open>Properties of the matcher\<close>

text \<open>
  The equations of the two stars are recursive under a \<open>\<lambda>\<close>; they are unfolded by hand.
\<close>

declare rm.simps(5,6) [simp del]











section \<open>Properties of the numeric-tag validator\<close>

text \<open>Facts for evaluating the decimal operations on literals.\<close>

lemmas dec_eval = quantize_half_up_def quant_exp_def rescale_half_up_def ndigits.simps
  dec_eq_def numeric_check_def Decimal_def parse_finite_def parse_special_def make_finite_def
  within_limits_def parse_exponent_def strip_def lower_def lower_char_def isspace_def isdigit_def
  nat_of_digits_def digit_val_def startswith_def










text \<open>Evaluating the validator from the values of its parts.\<close>

lemma validate_math_answer_eval:
  assumes "re_fullmatch answer_re response = Some m"
    and "re_group m 1 = attrs" and "strip (re_group m 2) = v"
    and "units_check attrs units = U" and "rounding_check attrs dp = R"
    and "count_decimals v = Inr (n, nd)" and "numeric_check v expected dp = N"
    and "U @ R @ nd @ places_check n dp @ N = reasons" and "ok = (reasons = [])"
  shows "validate_math_answer response expected units dp = Inr (ok, reasons)"
proof -
  have "validate_math_answer response expected units dp =
          Inr (U @ R @ nd @ places_check n dp @ N = [], U @ R @ nd @ places_check n dp @ N)"
    unfolding validate_math_answer_def assms(1) option.case Let_def assms(2,3,4,5,6,7)
    by simp
  then show ?thesis unfolding assms(8,9) .
qed

text \<open>
  C4. The two contracts of the source's \<^verbatim>\<open>main\<close>. The expected values are the decimals
  of \<^verbatim>\<open>str(20.0 / 8.0)\<close>, which is \<^verbatim>\<open>2.5\<close>, and of \<^verbatim>\<open>str(3.141592653589793 * (3.2**2))\<close>,
  which is \<^verbatim>\<open>32.169908772759484\<close>. With 2.5, unit \<^verbatim>\<open>m/s^2\<close> and precision 3, the answer
  \<^verbatim>\<open>2.500\<close> is accepted and \<^verbatim>\<open>2.50\<close> is rejected with the decimal-places reason alone;
  with the area, unit \<^verbatim>\<open>m^2\<close> and precision 2, \<^verbatim>\<open>32.17\<close> is accepted and \<^verbatim>\<open>32.16\<close> is
  rejected with the numeric-mismatch reason alone.
\<close>

theorem validate_math_answer_examples:
  "validate_math_answer ''<answer units=\"m/s^2\" rounding=\"3dp\">2.500</answer>''
       (Fin False 25 (- 1)) ''m/s^2'' 3 =
     Inr (True, []) \<and>
   validate_math_answer ''<answer units=\"m/s^2\" rounding=\"3dp\">2.50</answer>''
       (Fin False 25 (- 1)) ''m/s^2'' 3 =
     Inr (False, [WrongDecimalPlaces 3 2]) \<and>
   validate_math_answer ''<answer units=\"m^2\" rounding=\"2dp\">32.17</answer>''
       (Fin False 32169908772759484 (- 15)) ''m^2'' 2 =
     Inr (True, []) \<and>
   validate_math_answer ''<answer units=\"m^2\" rounding=\"2dp\">32.16</answer>''
       (Fin False 32169908772759484 (- 15)) ''m^2'' 2 =
     Inr (False, [NumericMismatch (Fin False 3216 (- 2)) (Fin False 3217 (- 2)) 2])"
proof -
  have a1: "validate_math_answer ''<answer units=\"m/s^2\" rounding=\"3dp\">2.500</answer>''
       (Fin False 25 (- 1)) ''m/s^2'' 3 =
     Inr (True, [])"
  proof (rule validate_math_answer_eval)
    show "re_fullmatch answer_re ''<answer units=\"m/s^2\" rounding=\"3dp\">2.500</answer>'' =
        Some [(2, ''2.500''), (1, '' units=\"m/s^2\" rounding=\"3dp\"'')]"
      by code_simp
    show "re_group [(2, ''2.500''), (1, '' units=\"m/s^2\" rounding=\"3dp\"'')] 1 =
        '' units=\"m/s^2\" rounding=\"3dp\"''"
      by code_simp
    show "strip (re_group [(2, ''2.500''), (1, '' units=\"m/s^2\" rounding=\"3dp\"'')] 2) =
        ''2.500''"
      by code_simp
    show "units_check '' units=\"m/s^2\" rounding=\"3dp\"'' ''m/s^2'' = []"
      by code_simp
    show "rounding_check '' units=\"m/s^2\" rounding=\"3dp\"'' 3 = []"
      by code_simp
    show "count_decimals ''2.500'' = Inr (3, [])"
      by code_simp
    show "numeric_check ''2.500'' (Fin False 25 (- 1)) 3 =
        []"
      by (simp add: dec_eval)
  qed (simp_all add: places_check_def)
  have a2: "validate_math_answer ''<answer units=\"m/s^2\" rounding=\"3dp\">2.50</answer>''
       (Fin False 25 (- 1)) ''m/s^2'' 3 =
     Inr (False, [WrongDecimalPlaces 3 2])"
  proof (rule validate_math_answer_eval)
    show "re_fullmatch answer_re ''<answer units=\"m/s^2\" rounding=\"3dp\">2.50</answer>'' =
        Some [(2, ''2.50''), (1, '' units=\"m/s^2\" rounding=\"3dp\"'')]"
      by code_simp
    show "re_group [(2, ''2.50''), (1, '' units=\"m/s^2\" rounding=\"3dp\"'')] 1 =
        '' units=\"m/s^2\" rounding=\"3dp\"''"
      by code_simp
    show "strip (re_group [(2, ''2.50''), (1, '' units=\"m/s^2\" rounding=\"3dp\"'')] 2) =
        ''2.50''"
      by code_simp
    show "units_check '' units=\"m/s^2\" rounding=\"3dp\"'' ''m/s^2'' = []"
      by code_simp
    show "rounding_check '' units=\"m/s^2\" rounding=\"3dp\"'' 3 = []"
      by code_simp
    show "count_decimals ''2.50'' = Inr (2, [])"
      by code_simp
    show "numeric_check ''2.50'' (Fin False 25 (- 1)) 3 =
        []"
      by (simp add: dec_eval)
  qed (simp_all add: places_check_def)
  have a3: "validate_math_answer ''<answer units=\"m^2\" rounding=\"2dp\">32.17</answer>''
       (Fin False 32169908772759484 (- 15)) ''m^2'' 2 =
     Inr (True, [])"
  proof (rule validate_math_answer_eval)
    show "re_fullmatch answer_re ''<answer units=\"m^2\" rounding=\"2dp\">32.17</answer>'' =
        Some [(2, ''32.17''), (1, '' units=\"m^2\" rounding=\"2dp\"'')]"
      by code_simp
    show "re_group [(2, ''32.17''), (1, '' units=\"m^2\" rounding=\"2dp\"'')] 1 =
        '' units=\"m^2\" rounding=\"2dp\"''"
      by code_simp
    show "strip (re_group [(2, ''32.17''), (1, '' units=\"m^2\" rounding=\"2dp\"'')] 2) =
        ''32.17''"
      by code_simp
    show "units_check '' units=\"m^2\" rounding=\"2dp\"'' ''m^2'' = []"
      by code_simp
    show "rounding_check '' units=\"m^2\" rounding=\"2dp\"'' 2 = []"
      by code_simp
    show "count_decimals ''32.17'' = Inr (2, [])"
      by code_simp
    show "numeric_check ''32.17'' (Fin False 32169908772759484 (- 15)) 2 =
        []"
      by (simp add: dec_eval)
  qed (simp_all add: places_check_def)
  have a4: "validate_math_answer ''<answer units=\"m^2\" rounding=\"2dp\">32.16</answer>''
       (Fin False 32169908772759484 (- 15)) ''m^2'' 2 =
     Inr (False, [NumericMismatch (Fin False 3216 (- 2)) (Fin False 3217 (- 2)) 2])"
  proof (rule validate_math_answer_eval)
    show "re_fullmatch answer_re ''<answer units=\"m^2\" rounding=\"2dp\">32.16</answer>'' =
        Some [(2, ''32.16''), (1, '' units=\"m^2\" rounding=\"2dp\"'')]"
      by code_simp
    show "re_group [(2, ''32.16''), (1, '' units=\"m^2\" rounding=\"2dp\"'')] 1 =
        '' units=\"m^2\" rounding=\"2dp\"''"
      by code_simp
    show "strip (re_group [(2, ''32.16''), (1, '' units=\"m^2\" rounding=\"2dp\"'')] 2) =
        ''32.16''"
      by code_simp
    show "units_check '' units=\"m^2\" rounding=\"2dp\"'' ''m^2'' = []"
      by code_simp
    show "rounding_check '' units=\"m^2\" rounding=\"2dp\"'' 2 = []"
      by code_simp
    show "count_decimals ''32.16'' = Inr (2, [])"
      by code_simp
    show "numeric_check ''32.16'' (Fin False 32169908772759484 (- 15)) 2 =
        [NumericMismatch (Fin False 3216 (- 2)) (Fin False 3217 (- 2)) 2]"
      by (simp add: dec_eval)
  qed (simp_all add: places_check_def)
  from a1 a2 a3 a4 show ?thesis by (intro conjI)
qed

section \<open>The numeric comparison against the specification's rounding\<close>

















section \<open>Properties of the focus analyzer\<close>

text \<open>
  C10. On the empty string \<^verbatim>\<open>analyze_focus\<close> returns the snapshot with word count 0, no
  hits, a signal-to-noise ratio of 0 and one sentence in the denominator. On every
  string it returns a snapshot: the division never has a zero divisor, since the
  number of sentences is at least 1.
\<close>

theorem analyze_focus_snapshot:
  "analyze_focus [] =
     Inr \<lparr>mentions_sql = False, mentions_auth_bypass = False, target_hits = 0,
          offtopic_hits = 0, focus_score = 0, snr = 0, length_words = 0, sentences = 1\<rparr> \<and>
   (\<forall>text. \<exists>m. analyze_focus text = Inr m \<and> 1 \<le> sentences m)"
proof
  have w: "count_words_re [] = 0"
    by (simp add: count_words_re_def re_findall_def word_re_def Plus_def)
  have s: "split_sentences [] = []"
    by (simp add: split_sentences_def strip_def re_split_def)
  have k: "count_any [] SQL_KEYS = 0" "count_any [] AUTH_KEYS = 0" "count_any [] OFF_TOPIC = 0"
    by (simp_all add: count_any_def lower_def count_sub_def SQL_KEYS_def AUTH_KEYS_def OFF_TOPIC_def)
  show "analyze_focus [] =
     Inr \<lparr>mentions_sql = False, mentions_auth_bypass = False, target_hits = 0,
          offtopic_hits = 0, focus_score = 0, snr = 0, length_words = 0, sentences = 1\<rparr>"
    by (simp add: analyze_focus_def w s k py_truediv_def)
  show "\<forall>text. \<exists>m. analyze_focus text = Inr m \<and> 1 \<le> sentences m"
    by (simp add: analyze_focus_def py_truediv_def Let_def)
qed

section \<open>Properties of the retry loop\<close>

declare retry_loop.simps [simp del]




text \<open>
  C2. With \<^verbatim>\<open>max_retries = 0\<close> the loop body never runs: the collaborator is not
  called, nothing is raised, and the call ends with the implicit \<^verbatim>\<open>None\<close>.
\<close>

theorem extract_with_retry_zero_bound:
  "extract_with_retry str_of create prompt 0 = ([], ReturnedNone)"
  by (simp add: extract_with_retry_def retry_loop.simps)

end
